theory Spec2Isabelle
  imports Main "HOL-Library.Word" "HOL-Library.Sublist"
begin

section \<open>The conversion handler of mdconvwk (src/index.ts)\<close>

text \<open>
  The service has one route, \<^verbatim>\<open>GET /html?url=...\<close>. Its handler validates the \<^verbatim>\<open>url\<close>
  parameter, fetches the page, checks content type and size, hands the body to the
  Markdown converter and answers with the converted text; every failure is raised as an
  \<^verbatim>\<open>HTTPException\<close> and turned into a JSON reply by the error handler of the application.

  The handler is embedded as a function from an environment (the platform's URL parser,
  \<^verbatim>\<open>fetch\<close> and the AI binding) and a request to the reply, together with the list of
  calls it made on the way. The middlewares \<^verbatim>\<open>timing()\<close> and \<^verbatim>\<open>logger()\<close> take no
  decision and are left out.
\<close>

subsection \<open>Strings\<close>

text \<open>
  A JavaScript string is a sequence of UTF-16 code units, and \<^verbatim>\<open>length\<close> counts them.
  \<open>lit\<close> embeds the literals of the source.
\<close>

type_synonym js_string = "16 word list"

definition lit :: "string \<Rightarrow> js_string" where
  "lit s = map of_char s"

text \<open>\<^verbatim>\<open>String.prototype.includes\<close>: the argument occurs as a contiguous run.\<close>

fun includes_str :: "'a list \<Rightarrow> 'a list \<Rightarrow> bool" where
  "includes_str [] t = (t = [])"
| "includes_str (x # xs) t = (prefix t (x # xs) \<or> includes_str xs t)"

text \<open>
  Lower-casing of the ASCII letters, as the platform's \<^verbatim>\<open>Headers\<close> class applies it to
  header names.
\<close>

definition lower_unit :: "16 word \<Rightarrow> 16 word" where
  "lower_unit c = (if 65 \<le> c \<and> c \<le> 90 then c + 32 else c)"

definition ascii_lowercase :: "js_string \<Rightarrow> js_string" where
  "ascii_lowercase s = map lower_unit s"

subsection \<open>Platform objects\<close>

text \<open>
  \<^verbatim>\<open>Headers\<close>: a map from lower-cased names to values; \<^verbatim>\<open>get\<close> returns
  \<^verbatim>\<open>null\<close> (here \<open>None\<close>) for a name that is not there, \<^verbatim>\<open>append\<close> joins the
  values of one name with a comma.
\<close>

type_synonym Headers = "js_string \<rightharpoonup> js_string"

definition Headers_get :: "Headers \<Rightarrow> js_string \<Rightarrow> js_string option" where
  "Headers_get h name = h (ascii_lowercase name)"

definition Headers_set :: "Headers \<Rightarrow> js_string \<Rightarrow> js_string \<Rightarrow> Headers" where
  "Headers_set h name v = h(ascii_lowercase name \<mapsto> v)"

definition Headers_append :: "Headers \<Rightarrow> js_string \<Rightarrow> js_string \<Rightarrow> Headers" where
  "Headers_append h name v =
     (case h (ascii_lowercase name) of
        None \<Rightarrow> h(ascii_lowercase name \<mapsto> v)
      | Some old \<Rightarrow> h(ascii_lowercase name \<mapsto> old @ lit '', '' @ v))"

fun Headers_fill :: "Headers \<Rightarrow> (js_string \<times> js_string) list \<Rightarrow> Headers" where
  "Headers_fill h [] = h"
| "Headers_fill h ((name, v) # init) = Headers_fill (Headers_append h name v) init"

definition Headers_new :: "(js_string \<times> js_string) list \<Rightarrow> Headers" where
  "Headers_new init = Headers_fill Map.empty init"

text \<open>
  What a platform call rejects with (or throws): a \<^verbatim>\<open>DOMException\<close> or any other error
  object, each with its \<^verbatim>\<open>name\<close> and \<^verbatim>\<open>message\<close>. \<^verbatim>\<open>HTTPException\<close> is the class
  of hono/http-exception that the handler raises itself; inside the handler a thrown value
  is one or the other.
\<close>

datatype js_error =
    DOMException js_string js_string
  | Error js_string js_string

datatype thrown =
    HTTPException int js_string
  | Rejection js_error

text \<open>The parts of a parsed \<^verbatim>\<open>URL\<close> that the handler reads.\<close>

record url =
  protocol :: js_string
  hostname :: js_string

text \<open>
  The \<^verbatim>\<open>Response\<close> that \<^verbatim>\<open>fetch\<close> resolves to. \<open>resp_text\<close> is the outcome of
  awaiting \<^verbatim>\<open>resp.text()\<close>.
\<close>

record fetch_response =
  ok :: bool
  status :: int
  statusText :: js_string
  headers :: Headers
  resp_text :: "js_error + js_string"

text \<open>The documents handed to \<^verbatim>\<open>AI.toMarkdown\<close> and what it resolves to.\<close>

datatype blob = Blob "js_string list" js_string

record markdown_document =
  name :: js_string
  blob :: blob

record conversion_response =
  data :: js_string

datatype conversion_result =
    Null
  | Undefined
  | Array "conversion_response list"

record env =
  URL_new :: "js_string \<Rightarrow> js_error + url"
  fetch :: "js_string \<Rightarrow> js_error + fetch_response"
  AI_toMarkdown :: "markdown_document list \<Rightarrow> js_error + conversion_result"

text \<open>The request: the query parameters of \<^verbatim>\<open>c.req.url\<close>, in order.\<close>

record request =
  searchParams :: "(js_string \<times> js_string) list"

definition searchParams_get :: "request \<Rightarrow> js_string \<Rightarrow> js_string option" where
  "searchParams_get req key = map_of (searchParams req) key"

text \<open>The calls the handler makes, in the order it makes them.\<close>

datatype log_arg = Str js_string | Obj thrown

datatype event =
    Fetch js_string
  | Text_read
  | ToMarkdown "markdown_document list"
  | Console_error "log_arg list"

subsection \<open>Replies\<close>

text \<open>
  A reply is a text reply with its headers or the JSON object
  \<^verbatim>\<open>{error, status}\<close> of the error handler.
\<close>

datatype response =
    Text_response (res_status: int) (res_headers: Headers) (res_text: js_string)
  | Json_response (res_status: int) (res_error: js_string) (res_error_status: int)

definition TEXT_PLAIN :: js_string where
  "TEXT_PLAIN = lit ''text/plain; charset=UTF-8''"

text \<open>
  Modelled from the spec: \<^verbatim>\<open>c.text\<close> of the Hono framework, whose code is not part of
  the repository. The spec (4.1, step 7) and the tests of the repository (index.test.ts,
  "should successfully convert HTML to Markdown") give a text reply the status 200 and
  the Content-Type \<^verbatim>\<open>text/plain; charset=UTF-8\<close>: the framework sets its own content type
  after the headers of the init object, so a Content-Type passed there is replaced; the
  other headers of the init object are kept.
\<close>

definition c_text :: "js_string \<Rightarrow> (js_string \<times> js_string) list \<Rightarrow> response" where
  "c_text txt init_headers =
     Text_response 200
       (Headers_set (Headers_new init_headers) (lit ''Content-Type'') TEXT_PLAIN) txt"

text \<open>
  Modelled from the spec: \<^verbatim>\<open>c.json\<close> of the Hono framework, whose code is not part of
  the repository. By the spec (4.1, Error Mapper) \<^verbatim>\<open>c.json({error, status}, code)\<close> is the
  reply with that JSON object as its body and \<^verbatim>\<open>code\<close> as its status. The framework builds
  the reply with the platform's \<^verbatim>\<open>Response\<close> constructor, which (Fetch standard) throws a
  \<^verbatim>\<open>RangeError\<close> for a status outside 200 to 599 and a \<^verbatim>\<open>TypeError\<close> for a body together
  with a null body status; then \<^verbatim>\<open>c.json\<close> throws. The message of such an error is the
  platform's own and is left empty.
\<close>

definition null_body_status :: "int \<Rightarrow> bool" where
  "null_body_status st = (st = 101 \<or> st = 103 \<or> st = 204 \<or> st = 205 \<or> st = 304)"

definition c_json :: "js_string \<Rightarrow> int \<Rightarrow> int \<Rightarrow> js_error + response" where
  "c_json err st code =
     (if code < 200 \<or> 599 < code then Inl (Error (lit ''RangeError'') [])
      else if null_body_status code then Inl (Error (lit ''TypeError'') [])
      else Inr (Json_response code err st))"

subsection \<open>The handler\<close>

definition isValidUrl :: "env \<Rightarrow> js_string \<Rightarrow> bool" where
  "isValidUrl E urlString =
     (case URL_new E urlString of
        Inl _ \<Rightarrow> False
      | Inr u \<Rightarrow> protocol u = lit ''http:'' \<or> protocol u = lit ''https:'')"

text \<open>
  Lines 52 to 73, the end of the \<^verbatim>\<open>try\<close> block: the conversion of a body that passed
  the gates, and the reply. \<open>tr\<close> holds the calls made so far. The test
  \<^verbatim>\<open>!markdown || markdown.length === 0\<close> holds for \<^verbatim>\<open>null\<close>, \<^verbatim>\<open>undefined\<close> and the
  empty array; otherwise \<^verbatim>\<open>markdown[0]\<close> is the head of the array.
\<close>

definition convert ::
  "env \<Rightarrow> js_string \<Rightarrow> js_string \<Rightarrow> js_string \<Rightarrow> event list \<Rightarrow> event list \<times> (thrown + response)"
where
  "convert E urlParam contentType body tr =
     (case URL_new E urlParam of
        Inl e \<Rightarrow> (tr, Inl (Rejection e))
      | Inr u \<Rightarrow>
          let docs = [\<lparr>name = hostname u @ lit ''.html'', blob = Blob [body] contentType\<rparr>]
          in
            (case AI_toMarkdown E docs of
               Inl e \<Rightarrow> (tr @ [ToMarkdown docs], Inl (Rejection e))
             | Inr markdown \<Rightarrow>
                 (case markdown of
                    Null \<Rightarrow>
                      (tr @ [ToMarkdown docs],
                       Inl (HTTPException 500 (lit ''Failed to convert HTML to Markdown'')))
                  | Undefined \<Rightarrow>
                      (tr @ [ToMarkdown docs],
                       Inl (HTTPException 500 (lit ''Failed to convert HTML to Markdown'')))
                  | Array [] \<Rightarrow>
                      (tr @ [ToMarkdown docs],
                       Inl (HTTPException 500 (lit ''Failed to convert HTML to Markdown'')))
                  | Array (m # ms) \<Rightarrow>
                      (tr @ [ToMarkdown docs],
                       Inr (c_text (data m)
                             [(lit ''Content-Type'', lit ''text/markdown; charset=utf-8''),
                              (lit ''Cache-Control'',
                               lit ''public, max-age=3600, s-maxage=86400'')])))))"

text \<open>Lines 26 to 73: the \<^verbatim>\<open>try\<close> block, with the calls made.\<close>

definition try_block :: "env \<Rightarrow> js_string \<Rightarrow> event list \<times> (thrown + response)" where
  "try_block E urlParam =
     (case fetch E urlParam of
        Inl e \<Rightarrow> ([Fetch urlParam], Inl (Rejection e))
      | Inr resp \<Rightarrow>
          if \<not> ok resp then
            ([Fetch urlParam],
             Inl (HTTPException (status resp)
                   (lit ''Failed to fetch '' @ urlParam @ lit '': '' @ statusText resp)))
          else
            (case Headers_get (headers resp) (lit ''Content-Type'') of
               None \<Rightarrow>
                 ([Fetch urlParam],
                  Inl (HTTPException 400 (lit ''Only HTML content is supported'')))
             | Some contentType \<Rightarrow>
                 if contentType = [] \<or> \<not> includes_str contentType (lit ''text/html'') then
                   ([Fetch urlParam],
                    Inl (HTTPException 400 (lit ''Only HTML content is supported'')))
                 else
                   (case resp_text resp of
                      Inl e \<Rightarrow> ([Fetch urlParam, Text_read], Inl (Rejection e))
                    | Inr body \<Rightarrow>
                        if length body > 10 * 1024 * 1024 then
                          ([Fetch urlParam, Text_read],
                           Inl (HTTPException 413
                                 (lit ''Content too large. Maximum size is 10MB'')))
                        else
                          convert E urlParam contentType body
                            [Fetch urlParam, Text_read])))"

text \<open>Lines 74 to 87: the \<^verbatim>\<open>catch\<close> block.\<close>

definition catch_block :: "thrown \<Rightarrow> event list \<times> thrown" where
  "catch_block error =
     (case error of
        HTTPException st msg \<Rightarrow> ([], HTTPException st msg)
      | Rejection (DOMException nm msg) \<Rightarrow>
          if nm = lit ''AbortError'' then ([], HTTPException 504 (lit ''Request timeout''))
          else
            ([Console_error [Str (lit ''Unexpected error:''), Obj error]],
             HTTPException 500 (lit ''Internal server error while processing request''))
      | Rejection (Error nm msg) \<Rightarrow>
          ([Console_error [Str (lit ''Unexpected error:''), Obj error]],
           HTTPException 500 (lit ''Internal server error while processing request'')))"

text \<open>Lines 11 to 88: the handler of \<^verbatim>\<open>GET /html\<close>.\<close>

definition handler :: "env \<Rightarrow> request \<Rightarrow> event list \<times> (thrown + response)" where
  "handler E req =
     (case searchParams_get req (lit ''url'') of
        None \<Rightarrow> ([], Inl (HTTPException 400 (lit ''URL parameter is required'')))
      | Some urlParam \<Rightarrow>
          if urlParam = [] then
            ([], Inl (HTTPException 400 (lit ''URL parameter is required'')))
          else if \<not> isValidUrl E urlParam then
            ([], Inl (HTTPException 400
                       (lit ''Invalid URL format. Must be a valid HTTP or HTTPS URL'')))
          else
            (case try_block E urlParam of
               (tr, Inr res) \<Rightarrow> (tr, Inr res)
             | (tr, Inl error) \<Rightarrow>
                 (case catch_block error of (tr', error') \<Rightarrow> (tr @ tr', Inl error'))))"

text \<open>Lines 91 to 111: the error handler of the application.\<close>

definition onError :: "thrown \<Rightarrow> event list \<times> (js_error + response)" where
  "onError err =
     (case err of
        HTTPException st msg \<Rightarrow> ([Console_error [Obj err]], c_json msg st st)
      | Rejection e \<Rightarrow>
          ([Console_error [Obj err]], c_json (lit ''Internal Server Error'') 500 500))"

text \<open>
  Modelled from the spec: the dispatch of the Hono framework, whose code is not part of
  the repository. What the handler throws goes to the error handler. An error that the
  error handler throws itself is an unclassified failure (spec 4.1, Error Mapper): it is
  caught one level up, where the middlewares run, and goes to the error handler again.
  \<open>Inl\<close> is an error that leaves the application.
\<close>

definition app_request :: "env \<Rightarrow> request \<Rightarrow> event list \<times> (js_error + response)" where
  "app_request E req =
     (case handler E req of
        (tr, Inr res) \<Rightarrow> (tr, Inr res)
      | (tr, Inl err) \<Rightarrow>
          (case onError err of
             (tr', Inr res) \<Rightarrow> (tr @ tr', Inr res)
           | (tr', Inl e) \<Rightarrow>
               (case onError (Rejection e) of (tr'', r) \<Rightarrow> (tr @ tr' @ tr'', r))))"

definition fetch_calls :: "event list \<Rightarrow> js_string list" where
  "fetch_calls tr = concat (map (\<lambda>ev. case ev of Fetch u \<Rightarrow> [u] | _ \<Rightarrow> []) tr)"

subsection \<open>Example collaborators\<close>

text \<open>
  Concrete collaborators on which the theorems below are run: a parser that knows two
  addresses and rejects every other string, a \<^verbatim>\<open>fetch\<close> and a converter with one fixed
  outcome each, and a request with the one parameter \<^verbatim>\<open>url\<close>.
\<close>

definition URL_stub :: "js_string \<Rightarrow> js_error + url" where
  "URL_stub s =
     (if s = lit ''https://example.com'' then
        Inr \<lparr>protocol = lit ''https:'', hostname = lit ''example.com''\<rparr>
      else if s = lit ''ftp://example.com'' then
        Inr \<lparr>protocol = lit ''ftp:'', hostname = lit ''example.com''\<rparr>
      else Inl (Error (lit ''TypeError'') (lit ''Invalid URL'')))"

definition html_response :: "js_string \<Rightarrow> js_error + js_string \<Rightarrow> fetch_response" where
  "html_response contentType txt =
     \<lparr>ok = True, status = 200, statusText = lit ''OK'',
      headers = Headers_new [(lit ''Content-Type'', contentType)], resp_text = txt\<rparr>"



definition example_html :: fetch_response where
  "example_html = html_response (lit ''text/html; charset=utf-8'') (Inr (lit ''<h1>Test</h1>''))"

definition converted :: conversion_result where
  "converted = Array [\<lparr>data = lit ''# Test''\<rparr>, \<lparr>data = lit ''other''\<rparr>]"

definition abort_error :: js_error where
  "abort_error = DOMException (lit ''AbortError'') (lit ''The operation was aborted'')"

definition example_env ::
  "js_error + fetch_response \<Rightarrow> js_error + conversion_result \<Rightarrow> env" where
  "example_env f md = \<lparr>URL_new = URL_stub, fetch = (\<lambda>_. f), AI_toMarkdown = (\<lambda>_. md)\<rparr>"

definition example_request :: "js_string \<Rightarrow> request" where
  "example_request u = \<lparr>searchParams = [(lit ''url'', u)]\<rparr>"

lemmas example_defs = example_env_def example_request_def URL_stub_def html_response_def
  searchParams_get_def isValidUrl_def

lemmas headers_defs = Headers_get_def Headers_set_def Headers_new_def Headers_append_def
  ascii_lowercase_def lower_unit_def

section \<open>Properties\<close>

subsection \<open>Auxiliary facts\<close>


text \<open>
  A request whose parameter is present, not empty and valid reaches the \<^verbatim>\<open>try\<close> block;
  what the block throws goes through the \<^verbatim>\<open>catch\<close> block and the error handler.
\<close>

lemma app_request_valid:
  assumes "searchParams_get req (lit ''url'') = Some urlParam" and "urlParam \<noteq> []"
    and "isValidUrl E urlParam"
  shows "app_request E req =
     (case try_block E urlParam of
        (tr, Inr res) \<Rightarrow> (tr, Inr res)
      | (tr, Inl error) \<Rightarrow>
          (case catch_block error of
             (tr', error') \<Rightarrow>
               (case onError error' of
                  (tr'', Inr res) \<Rightarrow> (tr @ tr' @ tr'', Inr res)
                | (tr'', Inl e) \<Rightarrow>
                    (case onError (Rejection e) of
                       (tr3, r) \<Rightarrow> (tr @ tr' @ tr'' @ tr3, r)))))"
  using assms by (simp add: app_request_def handler_def split: prod.splits sum.splits)

lemma isValidUrl_parsed:
  assumes "isValidUrl E urlParam"
  obtains u where "URL_new E urlParam = Inr u"
  using assms by (auto simp: isValidUrl_def split: sum.splits)

text \<open>What the handler does with a body that passed the gates.\<close>

lemma app_request_convert:
  assumes "searchParams_get req (lit ''url'') = Some urlParam" and "urlParam \<noteq> []"
    and "isValidUrl E urlParam"
    and "fetch E urlParam = Inr resp" and "ok resp"
    and "Headers_get (headers resp) (lit ''Content-Type'') = Some contentType"
    and "includes_str contentType (lit ''text/html'')"
    and "resp_text resp = Inr body" and "length body \<le> 10 * 1024 * 1024"
  shows "try_block E urlParam = convert E urlParam contentType body [Fetch urlParam, Text_read]"
proof -
  from assms(7) have "contentType \<noteq> []"
    by (auto simp: lit_def)
  then show ?thesis
    using assms(4-9) by (simp add: try_block_def)
qed

text \<open>The reply to a rejection that reaches the \<^verbatim>\<open>catch\<close> block.\<close>

lemma rejection_reply:
  "snd (onError (snd (catch_block (Rejection e)))) =
     (case e of
        DOMException nm msg \<Rightarrow>
          if nm = lit ''AbortError'' then Inr (Json_response 504 (lit ''Request timeout'') 504)
          else Inr (Json_response 500 (lit ''Internal server error while processing request'') 500)
      | Error nm msg \<Rightarrow>
          Inr (Json_response 500 (lit ''Internal server error while processing request'') 500))"
  by (simp add: catch_block_def onError_def c_json_def null_body_status_def split: js_error.splits)

text \<open>A rejected \<^verbatim>\<open>fetch\<close> and a rejected conversion both end in the \<^verbatim>\<open>catch\<close> block.\<close>

lemma fetch_rejected:
  assumes "searchParams_get req (lit ''url'') = Some urlParam" and "urlParam \<noteq> []"
    and "isValidUrl E urlParam"
    and "fetch E urlParam = Inl e"
  shows "snd (app_request E req) = snd (onError (snd (catch_block (Rejection e))))"
  using assms(4)
  by (simp add: app_request_valid [OF assms(1-3)] try_block_def catch_block_def onError_def
      c_json_def null_body_status_def split: prod.splits js_error.splits)

lemma toMarkdown_rejected:
  assumes "searchParams_get req (lit ''url'') = Some urlParam" and "urlParam \<noteq> []"
    and "isValidUrl E urlParam"
    and "fetch E urlParam = Inr resp" and "ok resp"
    and "Headers_get (headers resp) (lit ''Content-Type'') = Some contentType"
    and "includes_str contentType (lit ''text/html'')"
    and "resp_text resp = Inr body" and "length body \<le> 10 * 1024 * 1024"
    and "URL_new E urlParam = Inr u"
    and "AI_toMarkdown E [\<lparr>name = hostname u @ lit ''.html'', blob = Blob [body] contentType\<rparr>]
           = Inl e"
  shows "snd (app_request E req) = snd (onError (snd (catch_block (Rejection e))))"
  using assms(10,11)
  by (simp add: app_request_valid [OF assms(1-3)] app_request_convert [OF assms(1-9)]
      convert_def catch_block_def onError_def c_json_def null_body_status_def
      split: prod.splits js_error.splits)

text \<open>
  The end-to-end scenario of the tests, computed from the definitions: the calls made and
  the reply.
\<close>

lemma example_run:
  "fst (app_request (example_env (Inr example_html) (Inr converted))
          (example_request (lit ''https://example.com'')))
     = [Fetch (lit ''https://example.com''), Text_read,
        ToMarkdown [\<lparr>name = lit ''example.com.html'',
                     blob = Blob [lit ''<h1>Test</h1>''] (lit ''text/html; charset=utf-8'')\<rparr>]]
   \<and> (\<exists>h. snd (app_request (example_env (Inr example_html) (Inr converted))
          (example_request (lit ''https://example.com'')))
        = Inr (Text_response 200 h (lit ''# Test'')))"
  by (simp add: app_request_def handler_def try_block_def convert_def c_text_def
      example_defs example_html_def converted_def headers_defs lit_def)

subsection \<open>Parameter presence\<close>

text \<open>
  C8. A request without the parameter \<^verbatim>\<open>url\<close>, or with the empty string for it, is
  answered with status 400 and the message "URL parameter is required".
\<close>

theorem missing_parameter:
  assumes "searchParams_get req (lit ''url'') = None
         \<or> searchParams_get req (lit ''url'') = Some []"
  shows "snd (app_request E req) = Inr (Json_response 400 (lit ''URL parameter is required'') 400)"
  using assms by (auto simp: app_request_def handler_def onError_def c_json_def null_body_status_def)

theorem missing_parameter_witness:
  "snd (app_request (example_env (Inl (Error [] [])) (Inr Null)) \<lparr>searchParams = []\<rparr>)
     = Inr (Json_response 400 (lit ''URL parameter is required'') 400)
   \<and> snd (app_request (example_env (Inl (Error [] [])) (Inr Null)) (example_request []))
     = Inr (Json_response 400 (lit ''URL parameter is required'') 400)"
  using missing_parameter [of "\<lparr>searchParams = []\<rparr>" "example_env (Inl (Error [] [])) (Inr Null)"]
    missing_parameter [of "example_request []" "example_env (Inl (Error [] [])) (Inr Null)"]
  by (simp add: searchParams_get_def example_request_def)

subsection \<open>URL validation\<close>

text \<open>
  C7. A parameter that is present and not empty (the presence check of C8 comes first),
  and that the URL parser rejects or parses to a URL whose protocol is neither
  \<^verbatim>\<open>http:\<close> nor \<^verbatim>\<open>https:\<close>, is answered with status 400 and the message "Invalid URL
  format. Must be a valid HTTP or HTTPS URL", and \<^verbatim>\<open>fetch\<close> is not called.
\<close>

theorem invalid_url:
  assumes "searchParams_get req (lit ''url'') = Some urlParam" and "urlParam \<noteq> []"
    and "(\<exists>e. URL_new E urlParam = Inl e)
       \<or> (\<exists>u. URL_new E urlParam = Inr u \<and> protocol u \<noteq> lit ''http:''
              \<and> protocol u \<noteq> lit ''https:'')"
  shows "snd (app_request E req)
           = Inr (Json_response 400 (lit ''Invalid URL format. Must be a valid HTTP or HTTPS URL'') 400)
       \<and> fetch_calls (fst (app_request E req)) = []"
  using assms
  by (auto simp: app_request_def handler_def isValidUrl_def onError_def c_json_def null_body_status_def fetch_calls_def)

theorem invalid_url_witness:
  "snd (app_request (example_env (Inl (Error [] [])) (Inr Null))
          (example_request (lit ''ftp://example.com'')))
     = Inr (Json_response 400 (lit ''Invalid URL format. Must be a valid HTTP or HTTPS URL'') 400)
   \<and> fetch_calls (fst (app_request (example_env (Inl (Error [] [])) (Inr Null))
          (example_request (lit ''ftp://example.com'')))) = []
   \<and> snd (app_request (example_env (Inl (Error [] [])) (Inr Null))
          (example_request (lit ''not-a-url'')))
     = Inr (Json_response 400 (lit ''Invalid URL format. Must be a valid HTTP or HTTPS URL'') 400)
   \<and> fetch_calls (fst (app_request (example_env (Inl (Error [] [])) (Inr Null))
          (example_request (lit ''not-a-url'')))) = []"
  using invalid_url [of "example_request (lit ''ftp://example.com'')" "lit ''ftp://example.com''"
      "example_env (Inl (Error [] [])) (Inr Null)"]
    invalid_url [of "example_request (lit ''not-a-url'')" "lit ''not-a-url''"
      "example_env (Inl (Error [] [])) (Inr Null)"]
  by (simp add: example_defs lit_def)

subsection \<open>Upstream errors\<close>





subsection \<open>Content-type gate\<close>

text \<open>
  C5. After a successful fetch (\<^verbatim>\<open>ok\<close>), a response without a Content-Type header, or
  with one that does not contain "text/html", is answered with status 400 and the message
  "Only HTML content is supported", whatever the body is. A Content-Type that contains
  "text/html", such as "text/html; charset=utf-8", passes the gate: the handler goes on
  to read the body, and the reply is not that error.
\<close>

theorem content_type_gate:
  assumes "searchParams_get req (lit ''url'') = Some urlParam" and "urlParam \<noteq> []"
    and "isValidUrl E urlParam"
    and "fetch E urlParam = Inr resp" and "ok resp"
  shows "(Headers_get (headers resp) (lit ''Content-Type'') = None
          \<or> (\<exists>contentType. Headers_get (headers resp) (lit ''Content-Type'') = Some contentType
                \<and> \<not> includes_str contentType (lit ''text/html''))
        \<longrightarrow> snd (app_request E req)
              = Inr (Json_response 400 (lit ''Only HTML content is supported'') 400))
       \<and> (\<forall>contentType. Headers_get (headers resp) (lit ''Content-Type'') = Some contentType
              \<and> includes_str contentType (lit ''text/html'')
        \<longrightarrow> Text_read \<in> set (fst (app_request E req))
          \<and> (\<exists>res. snd (app_request E req) = Inr res
              \<and> res \<noteq> Json_response 400 (lit ''Only HTML content is supported'') 400))"
proof (intro conjI impI allI)
  assume "Headers_get (headers resp) (lit ''Content-Type'') = None
          \<or> (\<exists>contentType. Headers_get (headers resp) (lit ''Content-Type'') = Some contentType
                \<and> \<not> includes_str contentType (lit ''text/html''))"
  then show "snd (app_request E req)
              = Inr (Json_response 400 (lit ''Only HTML content is supported'') 400)"
    using assms(4,5)
    by (auto simp: app_request_valid [OF assms(1-3)] try_block_def catch_block_def onError_def
        c_json_def null_body_status_def)
next
  fix contentType
  assume "Headers_get (headers resp) (lit ''Content-Type'') = Some contentType
              \<and> includes_str contentType (lit ''text/html'')"
  then have ct: "Headers_get (headers resp) (lit ''Content-Type'') = Some contentType"
    and inc: "includes_str contentType (lit ''text/html'')"
    by simp_all
  from inc have ne: "contentType \<noteq> []"
    by (auto simp: lit_def)
  show "Text_read \<in> set (fst (app_request E req))"
    using assms(4,5) ct inc ne
    by (auto simp: app_request_valid [OF assms(1-3)] try_block_def convert_def catch_block_def
        onError_def Let_def
        split: sum.splits conversion_result.splits list.splits js_error.splits)
  show "\<exists>res. snd (app_request E req) = Inr res
              \<and> res \<noteq> Json_response 400 (lit ''Only HTML content is supported'') 400"
    using assms(4,5) ct inc ne
    by (auto simp: app_request_valid [OF assms(1-3)] try_block_def convert_def catch_block_def
        onError_def Let_def c_json_def null_body_status_def c_text_def lit_def
        split: sum.splits conversion_result.splits list.splits js_error.splits)
qed

theorem content_type_gate_witness:
  "snd (app_request (example_env (Inr (html_response (lit ''application/json'') (Inr (lit ''{}''))))
                       (Inr converted))
          (example_request (lit ''https://example.com'')))
     = Inr (Json_response 400 (lit ''Only HTML content is supported'') 400)
   \<and> Text_read \<in> set (fst (app_request
          (example_env (Inr (html_response (lit ''text/html; charset=utf-8'') (Inr (lit ''<p>''))))
             (Inr converted))
          (example_request (lit ''https://example.com''))))
   \<and> (\<exists>res. snd (app_request
          (example_env (Inr (html_response (lit ''text/html; charset=utf-8'') (Inr (lit ''<p>''))))
             (Inr converted))
          (example_request (lit ''https://example.com''))) = Inr res
       \<and> res \<noteq> Json_response 400 (lit ''Only HTML content is supported'') 400)"
  using content_type_gate [of "example_request (lit ''https://example.com'')"
      "lit ''https://example.com''"
      "example_env (Inr (html_response (lit ''application/json'') (Inr (lit ''{}''))))
         (Inr converted)"
      "html_response (lit ''application/json'') (Inr (lit ''{}''))"]
    content_type_gate [of "example_request (lit ''https://example.com'')"
      "lit ''https://example.com''"
      "example_env (Inr (html_response (lit ''text/html; charset=utf-8'') (Inr (lit ''<p>''))))
         (Inr converted)"
      "html_response (lit ''text/html; charset=utf-8'') (Inr (lit ''<p>''))"]
  by (simp add: example_defs headers_defs lit_def)

text \<open>
  C10. The check is case-sensitive: a Content-Type that contains "text/html" only when
  letter case is ignored (such as "Text/HTML") is answered with status 400 and the message
  "Only HTML content is supported".
\<close>

theorem content_type_case_sensitive:
  assumes "searchParams_get req (lit ''url'') = Some urlParam" and "urlParam \<noteq> []"
    and "isValidUrl E urlParam"
    and "fetch E urlParam = Inr resp" and "ok resp"
    and "Headers_get (headers resp) (lit ''Content-Type'') = Some contentType"
    and "includes_str (ascii_lowercase contentType) (lit ''text/html'')"
    and "\<not> includes_str contentType (lit ''text/html'')"
  shows "snd (app_request E req)
           = Inr (Json_response 400 (lit ''Only HTML content is supported'') 400)"
  using assms(4-6,8)
  by (simp add: app_request_valid [OF assms(1-3)] try_block_def catch_block_def onError_def
      c_json_def null_body_status_def)

theorem content_type_case_sensitive_witness:
  "snd (app_request
          (example_env (Inr (html_response (lit ''Text/HTML'') (Inr (lit ''<h1>Test</h1>''))))
             (Inr converted))
          (example_request (lit ''https://example.com'')))
     = Inr (Json_response 400 (lit ''Only HTML content is supported'') 400)"
  using content_type_case_sensitive [of "example_request (lit ''https://example.com'')"
      "lit ''https://example.com''"
      "example_env (Inr (html_response (lit ''Text/HTML'') (Inr (lit ''<h1>Test</h1>''))))
         (Inr converted)"
      "html_response (lit ''Text/HTML'') (Inr (lit ''<h1>Test</h1>''))" "lit ''Text/HTML''"]
  by (simp add: example_defs headers_defs lit_def)

subsection \<open>Size gate\<close>

text \<open>
  C3. For an HTML response that was fetched successfully, a body of more than 10,485,760
  code units is answered with status 413 and the message "Content too large. Maximum size
  is 10MB"; a body of at most 10,485,760 code units, so one of exactly that length, passes
  the gate: the converter is called, and the reply is not that error.
\<close>

theorem size_gate:
  assumes "searchParams_get req (lit ''url'') = Some urlParam" and "urlParam \<noteq> []"
    and "isValidUrl E urlParam"
    and "fetch E urlParam = Inr resp" and "ok resp"
    and "Headers_get (headers resp) (lit ''Content-Type'') = Some contentType"
    and "includes_str contentType (lit ''text/html'')"
    and "resp_text resp = Inr body"
  shows "(length body > 10485760
        \<longrightarrow> snd (app_request E req)
              = Inr (Json_response 413 (lit ''Content too large. Maximum size is 10MB'') 413))
       \<and> (length body \<le> 10485760
        \<longrightarrow> (\<exists>docs. ToMarkdown docs \<in> set (fst (app_request E req)))
          \<and> (\<exists>res. snd (app_request E req) = Inr res
              \<and> res \<noteq> Json_response 413 (lit ''Content too large. Maximum size is 10MB'') 413))"
proof -
  from assms(7) have ne: "contentType \<noteq> []"
    by (auto simp: lit_def)
  obtain u where u: "URL_new E urlParam = Inr u"
    using assms(3) by (rule isValidUrl_parsed)
  show ?thesis
  proof (intro conjI impI)
    assume "length body > 10485760"
    then show "snd (app_request E req)
              = Inr (Json_response 413 (lit ''Content too large. Maximum size is 10MB'') 413)"
      using assms(4-8) ne
      by (simp add: app_request_valid [OF assms(1-3)] try_block_def catch_block_def onError_def
          c_json_def null_body_status_def)
  next
    assume le: "length body \<le> 10485760"
    then show "\<exists>docs. ToMarkdown docs \<in> set (fst (app_request E req))"
      using assms(4-8) ne u
      by (auto simp: app_request_valid [OF assms(1-3)] try_block_def convert_def catch_block_def
          onError_def Let_def
          split: sum.splits conversion_result.splits list.splits js_error.splits)
    from le show "\<exists>res. snd (app_request E req) = Inr res
              \<and> res \<noteq> Json_response 413 (lit ''Content too large. Maximum size is 10MB'') 413"
      using assms(4-8) ne u
      by (auto simp: app_request_valid [OF assms(1-3)] try_block_def convert_def catch_block_def
          onError_def Let_def c_json_def null_body_status_def c_text_def
          split: sum.splits conversion_result.splits list.splits js_error.splits)
  qed
qed

theorem size_gate_witness:
  "snd (app_request
          (example_env (Inr (html_response (lit ''text/html'') (Inr (replicate 10485761 120))))
             (Inr converted))
          (example_request (lit ''https://example.com'')))
     = Inr (Json_response 413 (lit ''Content too large. Maximum size is 10MB'') 413)
   \<and> (\<exists>docs. ToMarkdown docs \<in> set (fst (app_request
          (example_env (Inr (html_response (lit ''text/html'') (Inr (replicate 10485760 120))))
             (Inr converted))
          (example_request (lit ''https://example.com'')))))
   \<and> (\<exists>res. snd (app_request
          (example_env (Inr (html_response (lit ''text/html'') (Inr (replicate 10485760 120))))
             (Inr converted))
          (example_request (lit ''https://example.com''))) = Inr res
       \<and> res \<noteq> Json_response 413 (lit ''Content too large. Maximum size is 10MB'') 413)"
  using size_gate [of "example_request (lit ''https://example.com'')"
      "lit ''https://example.com''"
      "example_env (Inr (html_response (lit ''text/html'') (Inr (replicate 10485761 120))))
         (Inr converted)"
      "html_response (lit ''text/html'') (Inr (replicate 10485761 120))"
      "lit ''text/html''" "replicate 10485761 120"]
    size_gate [of "example_request (lit ''https://example.com'')"
      "lit ''https://example.com''"
      "example_env (Inr (html_response (lit ''text/html'') (Inr (replicate 10485760 120))))
         (Inr converted)"
      "html_response (lit ''text/html'') (Inr (replicate 10485760 120))"
      "lit ''text/html''" "replicate 10485760 120"]
  by (simp add: example_defs headers_defs lit_def)

subsection \<open>Conversion\<close>

text \<open>
  C6. For a request that passed the content-type and size gates, a converter that resolves
  to \<^verbatim>\<open>null\<close>, \<^verbatim>\<open>undefined\<close> or the empty array is answered with status 500 and the
  message "Failed to convert HTML to Markdown".
\<close>

theorem conversion_failed:
  assumes "searchParams_get req (lit ''url'') = Some urlParam" and "urlParam \<noteq> []"
    and "isValidUrl E urlParam"
    and "fetch E urlParam = Inr resp" and "ok resp"
    and "Headers_get (headers resp) (lit ''Content-Type'') = Some contentType"
    and "includes_str contentType (lit ''text/html'')"
    and "resp_text resp = Inr body" and "length body \<le> 10 * 1024 * 1024"
    and "URL_new E urlParam = Inr u"
    and "AI_toMarkdown E [\<lparr>name = hostname u @ lit ''.html'', blob = Blob [body] contentType\<rparr>]
           = Inr markdown"
    and "markdown = Null \<or> markdown = Undefined \<or> markdown = Array []"
  shows "snd (app_request E req)
           = Inr (Json_response 500 (lit ''Failed to convert HTML to Markdown'') 500)"
  using assms(10-12)
  by (auto simp: app_request_valid [OF assms(1-3)] app_request_convert [OF assms(1-9)]
      convert_def catch_block_def onError_def c_json_def null_body_status_def)

theorem conversion_failed_witness:
  "snd (app_request (example_env (Inr example_html) (Inr Null))
          (example_request (lit ''https://example.com'')))
     = Inr (Json_response 500 (lit ''Failed to convert HTML to Markdown'') 500)
   \<and> snd (app_request (example_env (Inr example_html) (Inr Undefined))
          (example_request (lit ''https://example.com'')))
     = Inr (Json_response 500 (lit ''Failed to convert HTML to Markdown'') 500)
   \<and> snd (app_request (example_env (Inr example_html) (Inr (Array [])))
          (example_request (lit ''https://example.com'')))
     = Inr (Json_response 500 (lit ''Failed to convert HTML to Markdown'') 500)"
  using conversion_failed [of "example_request (lit ''https://example.com'')"
      "lit ''https://example.com''" "example_env (Inr example_html) (Inr Null)" example_html
      "lit ''text/html; charset=utf-8''" "lit ''<h1>Test</h1>''"
      "\<lparr>protocol = lit ''https:'', hostname = lit ''example.com''\<rparr>" Null]
    conversion_failed [of "example_request (lit ''https://example.com'')"
      "lit ''https://example.com''" "example_env (Inr example_html) (Inr Undefined)" example_html
      "lit ''text/html; charset=utf-8''" "lit ''<h1>Test</h1>''"
      "\<lparr>protocol = lit ''https:'', hostname = lit ''example.com''\<rparr>" Undefined]
    conversion_failed [of "example_request (lit ''https://example.com'')"
      "lit ''https://example.com''" "example_env (Inr example_html) (Inr (Array []))" example_html
      "lit ''text/html; charset=utf-8''" "lit ''<h1>Test</h1>''"
      "\<lparr>protocol = lit ''https:'', hostname = lit ''example.com''\<rparr>" "Array []"]
  by (simp add: example_defs example_html_def headers_defs lit_def)

text \<open>
  C1. For a request that passed every validation and gate, and a converter that resolves
  to an array with at least one element, the reply has status 200, the \<^verbatim>\<open>data\<close> of
  element 0 as its body, whatever the other elements are, the Content-Type
  "text/plain; charset=UTF-8" and the Cache-Control "public, max-age=3600, s-maxage=86400".
  The handler passes "text/markdown; charset=utf-8" as Content-Type to \<^verbatim>\<open>c.text\<close>, which
  replaces it (see \<open>c_text\<close>).
\<close>

theorem success_reply:
  assumes "searchParams_get req (lit ''url'') = Some urlParam" and "urlParam \<noteq> []"
    and "isValidUrl E urlParam"
    and "fetch E urlParam = Inr resp" and "ok resp"
    and "Headers_get (headers resp) (lit ''Content-Type'') = Some contentType"
    and "includes_str contentType (lit ''text/html'')"
    and "resp_text resp = Inr body" and "length body \<le> 10 * 1024 * 1024"
    and "URL_new E urlParam = Inr u"
    and "AI_toMarkdown E [\<lparr>name = hostname u @ lit ''.html'', blob = Blob [body] contentType\<rparr>]
           = Inr (Array (m # ms))"
  shows "\<exists>h. snd (app_request E req) = Inr (Text_response 200 h (data m))
       \<and> Headers_get h (lit ''Content-Type'') = Some (lit ''text/plain; charset=UTF-8'')
       \<and> Headers_get h (lit ''Cache-Control'')
           = Some (lit ''public, max-age=3600, s-maxage=86400'')"
proof -
  have "snd (app_request E req)
          = Inr (c_text (data m)
              [(lit ''Content-Type'', lit ''text/markdown; charset=utf-8''),
               (lit ''Cache-Control'', lit ''public, max-age=3600, s-maxage=86400'')])"
    using assms(10,11)
    by (simp add: app_request_valid [OF assms(1-3)] app_request_convert [OF assms(1-9)]
        convert_def)
  then show ?thesis
    by (simp add: c_text_def TEXT_PLAIN_def headers_defs lit_def)
qed

theorem success_reply_witness:
  "\<exists>h. snd (app_request (example_env (Inr example_html) (Inr converted))
          (example_request (lit ''https://example.com'')))
       = Inr (Text_response 200 h (lit ''# Test''))
   \<and> Headers_get h (lit ''Content-Type'') = Some (lit ''text/plain; charset=UTF-8'')
   \<and> Headers_get h (lit ''Cache-Control'')
       = Some (lit ''public, max-age=3600, s-maxage=86400'')"
  using success_reply [of "example_request (lit ''https://example.com'')"
      "lit ''https://example.com''" "example_env (Inr example_html) (Inr converted)" example_html
      "lit ''text/html; charset=utf-8''" "lit ''<h1>Test</h1>''"
      "\<lparr>protocol = lit ''https:'', hostname = lit ''example.com''\<rparr>"
      "\<lparr>data = lit ''# Test''\<rparr>" "[\<lparr>data = lit ''other''\<rparr>]"]
  by (simp add: example_defs example_html_def converted_def headers_defs lit_def)

subsection \<open>Rejections\<close>

text \<open>
  C2. An abort, the \<^verbatim>\<open>DOMException\<close> named "AbortError" that the platform raises for a
  cancelled call, is answered with status 504 and the message "Request timeout", whether
  \<^verbatim>\<open>fetch\<close> or the converter rejected with it; every other rejection of \<^verbatim>\<open>fetch\<close> is
  answered with status 500 and the message "Internal server error while processing
  request".
\<close>

theorem timeout_and_unexpected:
  assumes "searchParams_get req (lit ''url'') = Some urlParam" and "urlParam \<noteq> []"
    and "isValidUrl E urlParam"
  shows "(\<forall>msg. fetch E urlParam = Inl (DOMException (lit ''AbortError'') msg)
            \<longrightarrow> snd (app_request E req) = Inr (Json_response 504 (lit ''Request timeout'') 504))
       \<and> (\<forall>resp contentType body u msg.
            fetch E urlParam = Inr resp \<and> ok resp
            \<and> Headers_get (headers resp) (lit ''Content-Type'') = Some contentType
            \<and> includes_str contentType (lit ''text/html'')
            \<and> resp_text resp = Inr body \<and> length body \<le> 10 * 1024 * 1024
            \<and> URL_new E urlParam = Inr u
            \<and> AI_toMarkdown E
                 [\<lparr>name = hostname u @ lit ''.html'', blob = Blob [body] contentType\<rparr>]
                = Inl (DOMException (lit ''AbortError'') msg)
            \<longrightarrow> snd (app_request E req) = Inr (Json_response 504 (lit ''Request timeout'') 504))
       \<and> (\<forall>e. fetch E urlParam = Inl e
              \<and> \<not> (\<exists>msg. e = DOMException (lit ''AbortError'') msg)
            \<longrightarrow> snd (app_request E req)
                  = Inr (Json_response 500 (lit ''Internal server error while processing request'') 500))"
proof (intro conjI allI impI)
  fix msg
  assume "fetch E urlParam = Inl (DOMException (lit ''AbortError'') msg)"
  then show "snd (app_request E req) = Inr (Json_response 504 (lit ''Request timeout'') 504)"
    by (simp add: fetch_rejected [OF assms] rejection_reply)
next
  fix resp contentType body u msg
  assume "fetch E urlParam = Inr resp \<and> ok resp
            \<and> Headers_get (headers resp) (lit ''Content-Type'') = Some contentType
            \<and> includes_str contentType (lit ''text/html'')
            \<and> resp_text resp = Inr body \<and> length body \<le> 10 * 1024 * 1024
            \<and> URL_new E urlParam = Inr u
            \<and> AI_toMarkdown E
                 [\<lparr>name = hostname u @ lit ''.html'', blob = Blob [body] contentType\<rparr>]
                = Inl (DOMException (lit ''AbortError'') msg)"
  then have "snd (app_request E req)
      = snd (onError (snd (catch_block (Rejection (DOMException (lit ''AbortError'') msg)))))"
    using toMarkdown_rejected [OF assms] by blast
  then show "snd (app_request E req) = Inr (Json_response 504 (lit ''Request timeout'') 504)"
    by (simp add: rejection_reply)
next
  fix e
  assume "fetch E urlParam = Inl e \<and> \<not> (\<exists>msg. e = DOMException (lit ''AbortError'') msg)"
  then show "snd (app_request E req)
                  = Inr (Json_response 500 (lit ''Internal server error while processing request'') 500)"
    by (auto simp: fetch_rejected [OF assms] rejection_reply split: js_error.splits)
qed

theorem timeout_and_unexpected_witness:
  "snd (app_request (example_env (Inl abort_error) (Inr converted))
          (example_request (lit ''https://example.com'')))
     = Inr (Json_response 504 (lit ''Request timeout'') 504)
   \<and> snd (app_request (example_env (Inr example_html) (Inl abort_error))
          (example_request (lit ''https://example.com'')))
     = Inr (Json_response 504 (lit ''Request timeout'') 504)
   \<and> snd (app_request
          (example_env (Inl (Error (lit ''Error'') (lit ''Network error''))) (Inr converted))
          (example_request (lit ''https://example.com'')))
     = Inr (Json_response 500 (lit ''Internal server error while processing request'') 500)"
  using timeout_and_unexpected [of "example_request (lit ''https://example.com'')"
      "lit ''https://example.com''" "example_env (Inl abort_error) (Inr converted)"]
    timeout_and_unexpected [of "example_request (lit ''https://example.com'')"
      "lit ''https://example.com''" "example_env (Inr example_html) (Inl abort_error)"]
    timeout_and_unexpected [of "example_request (lit ''https://example.com'')"
      "lit ''https://example.com''"
      "example_env (Inl (Error (lit ''Error'') (lit ''Network error''))) (Inr converted)"]
  by (simp add: example_defs example_html_def abort_error_def headers_defs lit_def)

text \<open>
  C9. Only a \<^verbatim>\<open>DOMException\<close> is classified as a timeout: a rejection of \<^verbatim>\<open>fetch\<close> or of
  the converter with any other error object, also one whose name is "AbortError", is
  answered with status 500 and the message "Internal server error while processing
  request".
\<close>

theorem abort_only_for_DOMException:
  assumes "searchParams_get req (lit ''url'') = Some urlParam" and "urlParam \<noteq> []"
    and "isValidUrl E urlParam"
  shows "(\<forall>nm msg. fetch E urlParam = Inl (Error nm msg)
            \<longrightarrow> snd (app_request E req)
                  = Inr (Json_response 500 (lit ''Internal server error while processing request'') 500))
       \<and> (\<forall>resp contentType body u nm msg.
            fetch E urlParam = Inr resp \<and> ok resp
            \<and> Headers_get (headers resp) (lit ''Content-Type'') = Some contentType
            \<and> includes_str contentType (lit ''text/html'')
            \<and> resp_text resp = Inr body \<and> length body \<le> 10 * 1024 * 1024
            \<and> URL_new E urlParam = Inr u
            \<and> AI_toMarkdown E
                 [\<lparr>name = hostname u @ lit ''.html'', blob = Blob [body] contentType\<rparr>]
                = Inl (Error nm msg)
            \<longrightarrow> snd (app_request E req)
                  = Inr (Json_response 500 (lit ''Internal server error while processing request'') 500))"
proof (intro conjI allI impI)
  fix nm msg
  assume "fetch E urlParam = Inl (Error nm msg)"
  then show "snd (app_request E req)
      = Inr (Json_response 500 (lit ''Internal server error while processing request'') 500)"
    by (simp add: fetch_rejected [OF assms] rejection_reply)
next
  fix resp contentType body u nm msg
  assume "fetch E urlParam = Inr resp \<and> ok resp
            \<and> Headers_get (headers resp) (lit ''Content-Type'') = Some contentType
            \<and> includes_str contentType (lit ''text/html'')
            \<and> resp_text resp = Inr body \<and> length body \<le> 10 * 1024 * 1024
            \<and> URL_new E urlParam = Inr u
            \<and> AI_toMarkdown E
                 [\<lparr>name = hostname u @ lit ''.html'', blob = Blob [body] contentType\<rparr>]
                = Inl (Error nm msg)"
  then have "snd (app_request E req)
      = snd (onError (snd (catch_block (Rejection (Error nm msg)))))"
    using toMarkdown_rejected [OF assms] by blast
  then show "snd (app_request E req)
      = Inr (Json_response 500 (lit ''Internal server error while processing request'') 500)"
    by (simp add: rejection_reply)
qed

theorem abort_only_for_DOMException_witness:
  "snd (app_request
          (example_env (Inl (Error (lit ''AbortError'') (lit ''aborted''))) (Inr converted))
          (example_request (lit ''https://example.com'')))
     = Inr (Json_response 500 (lit ''Internal server error while processing request'') 500)
   \<and> snd (app_request
          (example_env (Inr example_html) (Inl (Error (lit ''AbortError'') (lit ''aborted''))))
          (example_request (lit ''https://example.com'')))
     = Inr (Json_response 500 (lit ''Internal server error while processing request'') 500)"
  using abort_only_for_DOMException [of "example_request (lit ''https://example.com'')"
      "lit ''https://example.com''"
      "example_env (Inl (Error (lit ''AbortError'') (lit ''aborted''))) (Inr converted)"]
    abort_only_for_DOMException [of "example_request (lit ''https://example.com'')"
      "lit ''https://example.com''"
      "example_env (Inr example_html) (Inl (Error (lit ''AbortError'') (lit ''aborted'')))"]
  by (simp add: example_defs example_html_def headers_defs lit_def)

end
